theory Spec2Isabelle
  imports Main "HOL-Library.Word"
begin

section \<open>Durations\<close>

text \<open>
  Go's \<open>time.Duration\<close> is an \<open>int64\<close> count of nanoseconds. Its \<open>+\<close> and
  \<open>-\<close> wrap around, its comparisons are the signed ones (\<open><s\<close>, \<open>\<le>s\<close> on words).
\<close>

type_synonym Duration = "64 word"

definition Minute :: Duration where
  "Minute = 60000000000"

definition Hour :: Duration where
  "Hour = 3600000000000"

section \<open>Errors\<close>

text \<open>
  The two package-level error values and the five errors built in place with
  \<open>fmt.Errorf\<close>; the three "unexpected entry" errors carry the entry type and the index.
\<close>

type_synonym EntryType = string

datatype error =
    ErrNoEntries
  | ErrMaxTimeReached
  | ErrWorkAllNight
  | ErrNotSameDay
  | ErrUnexpected1 EntryType nat
  | ErrUnexpected2 EntryType nat
  | ErrUnexpected3 EntryType nat

section \<open>ComputeAccountedWorkTime\<close>

text \<open>
  The three blocks of the function, in the order of the source: the 6-hour tier, the
  9-hour tier, the 10-hour cap. Each takes and returns the pair of the two local variables
  \<open>(workTime, breakTime)\<close>.
\<close>

definition tier6 :: "Duration \<times> Duration \<Rightarrow> Duration \<times> Duration" where
  "tier6 p = (case p of (workTime, breakTime) \<Rightarrow>
     if 6 * Hour <s workTime then
       if breakTime <s 30 * Minute then
         if workTime + breakTime - 6 * Hour <s 30 * Minute
         then (6 * Hour, workTime + breakTime - 6 * Hour)
         else (workTime + breakTime - 30 * Minute, 30 * Minute)
       else (workTime, breakTime)
     else (workTime, breakTime))"

definition tier9 :: "Duration \<times> Duration \<Rightarrow> Duration \<times> Duration" where
  "tier9 p = (case p of (workTime, breakTime) \<Rightarrow>
     if 9 * Hour <s workTime then
       if breakTime <s 45 * Minute then
         if workTime + breakTime - 9 * Hour <s 45 * Minute
         then (9 * Hour, workTime + breakTime - 9 * Hour)
         else (workTime + breakTime - 45 * Minute, 45 * Minute)
       else (workTime, breakTime)
     else (workTime, breakTime))"

definition cap10 :: "Duration \<times> Duration \<Rightarrow> Duration \<times> Duration" where
  "cap10 p = (case p of (workTime, breakTime) \<Rightarrow>
     if 10 * Hour <s workTime
     then (10 * Hour, workTime + breakTime - 10 * Hour)
     else (workTime, breakTime))"

text \<open>The result is the triple of the source; its error component is always \<open>nil\<close>.\<close>

definition ComputeAccountedWorkTime ::
  "Duration \<Rightarrow> Duration \<Rightarrow> Duration \<times> Duration \<times> error option" where
  "ComputeAccountedWorkTime workTime breakTime =
     (case cap10 (tier9 (tier6 (workTime, breakTime))) of
        (w, b) \<Rightarrow> (w, b, None))"

section \<open>Instants\<close>

text \<open>
  \<open>time.Time\<close> and \<open>time.Location\<close> belong to Go's standard library. A
  \<open>Location\<close> is modelled by what the library looks up in it: the offset from UTC, in
  seconds, in effect at a given Unix second. A \<open>Time\<close> is an instant, as its number of
  nanoseconds since the Unix epoch (without the bounds of Go's representation), together
  with its \<open>Location\<close>.
\<close>

type_synonym Location = "int \<Rightarrow> int"

definition UTC :: Location where
  "UTC = (\<lambda>sec. 0)"

definition FixedZone :: "int \<Rightarrow> Location" where
  "FixedZone offset = (\<lambda>sec. offset)"

text \<open>
  The zone of the host, in which \<open>time.Unix\<close> and \<open>time.Now\<close> return their results.
  It is not part of the program and is taken to be UTC. The program never looks up an
  offset in it: it takes \<open>Year()\<close>, \<open>Month()\<close> and \<open>Day()\<close> of entry times only,
  which carry their own locations, and uses \<open>time.Unix\<close> only for the placeholder
  instant that it returns together with an error.
\<close>

definition Local :: Location where
  "Local = UTC"

record Time =
  unixNano :: int
  loc :: Location

definition Unix :: "int \<Rightarrow> int \<Rightarrow> Time" where
  "Unix sec nsec = \<lparr>unixNano = sec * 1000000000 + nsec, loc = Local\<rparr>"

text \<open>\<open>t.In(l)\<close>: the same instant, in another location.\<close>

definition In :: "Location \<Rightarrow> Time \<Rightarrow> Time" where
  "In l t = t\<lparr>loc := l\<rparr>"

definition minDuration :: Duration where
  "minDuration = - 9223372036854775808"

definition maxDuration :: Duration where
  "maxDuration = 9223372036854775807"

text \<open>
  \<open>t.Sub(u)\<close> is the difference of the two instants, whatever their locations, and
  saturates at the smallest and the largest \<open>Duration\<close>. \<open>t.Add(d)\<close> moves the
  instant by the signed value of \<open>d\<close> and keeps the location.
\<close>

definition Sub :: "Time \<Rightarrow> Time \<Rightarrow> Duration" where
  "Sub t u =
     (if unixNano t - unixNano u < - 9223372036854775808 then minDuration
      else if 9223372036854775807 < unixNano t - unixNano u then maxDuration
      else word_of_int (unixNano t - unixNano u))"

definition Add :: "Time \<Rightarrow> Duration \<Rightarrow> Time" where
  "Add t d = t\<lparr>unixNano := unixNano t + sint d\<rparr>"

text \<open>
  \<open>Year()\<close>, \<open>Month()\<close> and \<open>Day()\<close> are the fields of the civil date of an
  instant in its own location: the library adds the offset that the location has at the
  instant to the Unix second, and converts the resulting day number to a date of the
  proleptic Gregorian calendar. \<open>civil\<close> is that conversion (year, month, day of the day
  with the given number, day 0 being 1 January 1970).
\<close>

definition localDay :: "Time \<Rightarrow> int" where
  "localDay t =
     (let sec = unixNano t div 1000000000
      in (sec + loc t sec) div 86400)"

definition civil :: "int \<Rightarrow> int \<times> int \<times> int" where
  "civil day =
     (let z = day + 719468;
          era = z div 146097;
          doe = z - era * 146097;
          yoe = (doe - doe div 1460 + doe div 36524 - doe div 146096) div 365;
          doy = doe - (365 * yoe + yoe div 4 - yoe div 100);
          mp = (5 * doy + 2) div 153;
          d = doy - (153 * mp + 2) div 5 + 1;
          m = (if mp < 10 then mp + 3 else mp - 9);
          y = yoe + era * 400
      in (if m \<le> 2 then y + 1 else y, m, d))"

definition Year :: "Time \<Rightarrow> int" where
  "Year t = fst (civil (localDay t))"

definition Month :: "Time \<Rightarrow> int" where
  "Month t = fst (snd (civil (localDay t)))"

definition Day :: "Time \<Rightarrow> int" where
  "Day t = snd (snd (civil (localDay t)))"

section \<open>Entries\<close>

text \<open>
  \<open>EntryType\<close> is a string type in the source, so an entry can carry any string; the
  three constants are the values the program knows.
\<close>

definition EntryTypeCome :: EntryType where
  "EntryTypeCome = ''come''"

definition EntryTypeLeave :: EntryType where
  "EntryTypeLeave = ''leave''"

definition EntryTypeTrip :: EntryType where
  "EntryTypeTrip = ''trip''"

record Entry =
  Type :: EntryType
  Time :: Time

section \<open>ComputeWorkTime\<close>

text \<open>
  The local variables \<open>stateNone\<close>, \<open>stateWorking\<close> and \<open>stateTrip\<close> (0, 1
  and 2 in the source) are the only values \<open>state\<close> takes.
\<close>

datatype state = stateNone | stateWorking | stateTrip

text \<open>
  The \<open>for\<close> loop over the entries, from index \<open>i\<close> on: the remaining entries, the
  index of the first of them, and the loop variables \<open>state\<close>, \<open>workTime\<close> and
  \<open>lastCome\<close>. It returns the final \<open>workTime\<close>, or the error of the first entry
  that the current state does not accept.
\<close>

fun loop ::
  "Entry list \<Rightarrow> nat \<Rightarrow> state \<Rightarrow> Duration \<Rightarrow> Time \<Rightarrow> error + Duration" where
  "loop [] i state workTime lastCome = Inr workTime"
| "loop (e # es) i state workTime lastCome =
     (case state of
        stateNone \<Rightarrow>
          if Type e = EntryTypeCome
          then loop es (i + 1) stateWorking workTime (Time e)
          else Inl (ErrUnexpected1 (Type e) i)
      | stateWorking \<Rightarrow>
          if Type e = EntryTypeLeave
          then loop es (i + 1) stateNone (workTime + Sub (Time e) lastCome) lastCome
          else if Type e = EntryTypeTrip
          then loop es (i + 1) stateTrip workTime lastCome
          else Inl (ErrUnexpected2 (Type e) i)
      | stateTrip \<Rightarrow>
          if Type e = EntryTypeCome
          then loop es (i + 1) stateWorking workTime lastCome
          else Inl (ErrUnexpected3 (Type e) i))"

text \<open>The zero value of \<open>time.Time\<close>, to which \<open>lastCome\<close> is initialised.\<close>

definition zeroTime :: Time where
  "zeroTime = \<lparr>unixNano = - 62135596800000000000, loc = UTC\<rparr>"

text \<open>Every error return of \<open>ComputeWorkTime\<close> has this shape.\<close>

definition failure :: "error \<Rightarrow> Duration \<times> Time \<times> Duration \<times> error option" where
  "failure err = (0, Unix 0 0, 0, Some err)"

text \<open>
  The function itself. \<open>now\<close> is the instant that \<open>time.Now()\<close> returns when the
  source calls it, which it does only to build the virtual leave entry.
\<close>

definition ComputeWorkTime ::
  "Time \<Rightarrow> Entry list \<Rightarrow> Duration \<times> Time \<times> Duration \<times> error option" where
  "ComputeWorkTime now entries =
     (if length entries = 0 then failure ErrNoEntries
      else if Type (entries ! 0) \<noteq> EntryTypeCome then failure ErrWorkAllNight
      else if Year (Time (entries ! 0)) \<noteq> Year (Time (entries ! (length entries - 1)))
           \<or> Month (Time (entries ! 0)) \<noteq> Month (Time (entries ! (length entries - 1)))
           \<or> Day (Time (entries ! 0)) \<noteq> Day (Time (entries ! (length entries - 1)))
      then failure ErrNotSameDay
      else
        let entries =
              (if Type (entries ! (length entries - 1)) \<noteq> EntryTypeLeave
               then entries @ [\<lparr>Type = EntryTypeLeave, Time = now\<rparr>]
               else entries)
        in case loop entries 0 stateNone 0 zeroTime of
             Inl err \<Rightarrow> failure err
           | Inr workTime \<Rightarrow>
               let presenceTime =
                     Sub (Time (entries ! (length entries - 1))) (Time (entries ! 0));
                   breakTime = presenceTime - workTime
               in (workTime, Time (entries ! 0), breakTime, None))"

section \<open>GetLeaveTime\<close>

text \<open>
  The search loop of \<open>GetLeaveTime\<close> has no bound in the source: \<open>workTime\<close> starts
  at the target and grows by one minute (with wrap-around) until the accounted work time
  reaches the target. \<open>None\<close> is a run that never returns.
\<close>

partial_function (option) search ::
  "Time \<Rightarrow> Duration \<Rightarrow> Duration \<Rightarrow> Duration \<Rightarrow> (Time \<times> error option) option" where
  "search startTime breakTime targetWorkTime workTime =
     (case ComputeAccountedWorkTime workTime breakTime of
        (accountedWorkTime, accountedBreakTime, err) \<Rightarrow>
          if err \<noteq> None then Some (Unix 0 0, err)
          else if targetWorkTime \<le>s accountedWorkTime
          then Some (Add (Add startTime accountedWorkTime) accountedBreakTime, None)
          else search startTime breakTime targetWorkTime (workTime + Minute))"

definition GetLeaveTime ::
  "Time \<Rightarrow> Duration \<Rightarrow> Duration \<Rightarrow> (Time \<times> error option) option" where
  "GetLeaveTime startTime breakTime targetWorkTime =
     (if 10 * Hour <s targetWorkTime then Some (Unix 0 0, Some ErrMaxTimeReached)
      else search startTime breakTime targetWorkTime targetWorkTime)"

text \<open>
  Names for the parts of the search loop: the value of \<open>workTime\<close> in the iteration
  number \<open>k\<close> (counted from 0), the test that ends the loop, and the instant returned
  when it ends at a given \<open>workTime\<close>.
\<close>

definition candidate :: "Duration \<Rightarrow> nat \<Rightarrow> Duration" where
  "candidate targetWorkTime k = targetWorkTime + of_nat k * Minute"

definition reached :: "Duration \<Rightarrow> Duration \<Rightarrow> Duration \<Rightarrow> bool" where
  "reached breakTime targetWorkTime workTime =
     (targetWorkTime \<le>s fst (ComputeAccountedWorkTime workTime breakTime))"

definition leaveAt :: "Time \<Rightarrow> Duration \<Rightarrow> Duration \<Rightarrow> Time" where
  "leaveAt startTime breakTime workTime =
     Add (Add startTime (fst (ComputeAccountedWorkTime workTime breakTime)))
       (fst (snd (ComputeAccountedWorkTime workTime breakTime)))"

section \<open>Example instants\<close>

text \<open>The instant \<open>h:m\<close> on 15 January 2024, in UTC, for the examples.\<close>

definition clock :: "int \<Rightarrow> int \<Rightarrow> Time" where
  "clock h m = In UTC (Unix (1705276800 + h * 3600 + m * 60) 0)"

section \<open>The signed values of the results\<close>

text \<open>
  The three blocks of \<open>ComputeAccountedWorkTime\<close> once more, over the integers and
  in nanoseconds (6h, 9h, 10h, 30min and 45min written out). They are used to reason about
  the signed values of the word results; the lemmas below relate the two.
\<close>

definition tier6_int :: "int \<times> int \<Rightarrow> int \<times> int" where
  "tier6_int p = (case p of (w, b) \<Rightarrow>
     if 21600000000000 < w \<and> b < 1800000000000 then
       if w + b - 21600000000000 < 1800000000000
       then (21600000000000, w + b - 21600000000000)
       else (w + b - 1800000000000, 1800000000000)
     else (w, b))"

definition tier9_int :: "int \<times> int \<Rightarrow> int \<times> int" where
  "tier9_int p = (case p of (w, b) \<Rightarrow>
     if 32400000000000 < w \<and> b < 2700000000000 then
       if w + b - 32400000000000 < 2700000000000
       then (32400000000000, w + b - 32400000000000)
       else (w + b - 2700000000000, 2700000000000)
     else (w, b))"

definition cap10_int :: "int \<times> int \<Rightarrow> int \<times> int" where
  "cap10_int p = (case p of (w, b) \<Rightarrow>
     if 36000000000000 < w then (36000000000000, w + b - 36000000000000) else (w, b))"

definition sint2 :: "Duration \<times> Duration \<Rightarrow> int \<times> int" where
  "sint2 p = (sint (fst p), sint (snd p))"

section \<open>Signed arithmetic without overflow\<close>

lemma sint_bounds64:
  "- 9223372036854775808 \<le> sint (x :: 64 word)"
  "sint (x :: 64 word) < 9223372036854775808"
  using sint_ge [of x] sint_lt [of x] by simp_all

lemma sint_add_sub_exact:
  fixes w b c :: "64 word"
  assumes "- 9223372036854775808 \<le> sint w + sint b - sint c"
    and "sint w + sint b - sint c < 9223372036854775808"
  shows "sint (w + b - c) = sint w + sint b - sint c"
proof -
  have "w + b - c = word_of_int (sint w + sint b - sint c)"
    by simp
  hence "sint (w + b - c) = signed_take_bit 63 (sint w + sint b - sint c)"
    by (simp only: signed_of_int) simp
  thus ?thesis using assms by (simp add: signed_take_bit_int_eq_self)
qed

lemma tier6_sint: "sint2 (tier6 (w, b)) = tier6_int (sint w, sint b)"
proof -
  have b: "- 9223372036854775808 \<le> sint b" "sint w < 9223372036854775808"
    using sint_bounds64 by blast+
  show ?thesis
    using b
    by (auto simp add: sint2_def tier6_def tier6_int_def Hour_def Minute_def word_sless_alt
        sint_add_sub_exact)
qed

lemma tier9_sint: "sint2 (tier9 (w, b)) = tier9_int (sint w, sint b)"
proof -
  have b: "- 9223372036854775808 \<le> sint b" "sint w < 9223372036854775808"
    using sint_bounds64 by blast+
  show ?thesis
    using b
    by (auto simp add: sint2_def tier9_def tier9_int_def Hour_def Minute_def word_sless_alt
        sint_add_sub_exact)
qed

lemma sint2_inj: "sint2 p = sint2 q \<Longrightarrow> p = q"
  by (cases p, cases q) (auto simp add: sint2_def intro: signed_word_eqI)

lemma sint2_pair: "sint2 (w, b) = (sint w, sint b)"
  by (simp add: sint2_def)

lemma tier6_sint2: "sint2 (tier6 p) = tier6_int (sint2 p)"
  by (cases p) (simp add: tier6_sint sint2_pair)

lemma tier9_sint2: "sint2 (tier9 p) = tier9_int (sint2 p)"
  by (cases p) (simp add: tier9_sint sint2_pair)

lemma cap10_fst_sint: "sint (fst (cap10 p)) = fst (cap10_int (sint2 p))"
  by (cases p) (simp add: cap10_def cap10_int_def sint2_def Hour_def word_sless_alt)

lemma cap10_sint2:
  assumes "fst (sint2 p) + snd (sint2 p) - 36000000000000 < 9223372036854775808"
  shows "sint2 (cap10 p) = cap10_int (sint2 p)"
proof (cases p)
  case (Pair w b)
  have b: "- 9223372036854775808 \<le> sint b"
    using sint_bounds64 by blast
  show ?thesis
    using b assms unfolding Pair
    by (auto simp add: sint2_def cap10_def cap10_int_def Hour_def word_sless_alt
        sint_add_sub_exact)
qed

lemma tier6_int_sum: "fst (tier6_int p) + snd (tier6_int p) = fst p + snd p"
  by (cases p) (simp add: tier6_int_def)

lemma tier9_int_sum: "fst (tier9_int p) + snd (tier9_int p) = fst p + snd p"
  by (cases p) (simp add: tier9_int_def)

lemma cap10_int_sum: "fst (cap10_int p) + snd (cap10_int p) = fst p + snd p"
  by (cases p) (simp add: cap10_int_def)

lemma accounted_sint2:
  assumes "sint w + sint b - 36000000000000 < 9223372036854775808"
  shows "sint2 (cap10 (tier9 (tier6 (w, b))))
    = cap10_int (tier9_int (tier6_int (sint w, sint b)))"
proof -
  have "fst (sint2 (tier9 (tier6 (w, b)))) + snd (sint2 (tier9 (tier6 (w, b))))
    = sint w + sint b"
    by (simp add: tier9_sint2 tier6_sint2 tier9_int_sum tier6_int_sum sint2_pair)
  hence "sint2 (cap10 (tier9 (tier6 (w, b)))) = cap10_int (sint2 (tier9 (tier6 (w, b))))"
    using assms by (intro cap10_sint2) simp
  thus ?thesis
    by (simp add: tier9_sint2 tier6_sint2 sint2_pair)
qed

lemma accounted_int_mono:
  "w1 \<le> w2 \<Longrightarrow>
   fst (cap10_int (tier9_int (tier6_int (w1, b))))
     \<le> fst (cap10_int (tier9_int (tier6_int (w2, b))))"
  by (simp add: cap10_int_def tier9_int_def tier6_int_def)

lemma accountedWork_sint:
  "sint (fst (ComputeAccountedWorkTime w b))
   = fst (cap10_int (tier9_int (tier6_int (sint w, sint b))))"
  by (simp add: ComputeAccountedWorkTime_def split_beta cap10_fst_sint tier9_sint2 tier6_sint2
      sint2_pair)

lemma tier6_int_fix:
  "tier6_int (cap10_int (tier9_int (tier6_int p))) = cap10_int (tier9_int (tier6_int p))"
  by (cases p) (simp add: cap10_int_def tier9_int_def tier6_int_def)

lemma tier9_int_fix:
  "tier9_int (cap10_int (tier9_int (tier6_int p))) = cap10_int (tier9_int (tier6_int p))"
  by (cases p) (simp add: cap10_int_def tier9_int_def tier6_int_def)

lemma cap10_fix: "cap10 (cap10 p) = cap10 p"
  by (cases p) (simp add: cap10_def)

section \<open>The entry loop\<close>

lemma clock_day:
  "localDay (clock 9 0) = 19737" "localDay (clock 18 0) = 19737"
  by (simp_all add: localDay_def clock_def In_def Unix_def UTC_def)

lemma loop_index: "loop es i st wt lc = Inr w \<Longrightarrow> loop es j st wt lc = Inr w"
proof (induction es arbitrary: i j st wt lc)
  case Nil
  then show ?case by simp
next
  case (Cons e es)
  then show ?case
    by (cases st) (auto split: if_splits)
qed

lemma loop_drop_trip:
  "loop (pre @ \<lparr>Type = EntryTypeTrip, Time = trip\<rparr> # \<lparr>Type = EntryTypeCome, Time = resume\<rparr> # post)
      i st wt lc = Inr w \<Longrightarrow>
   loop (pre @ post) i st wt lc = Inr w"
proof (induction pre arbitrary: i st wt lc)
  case Nil
  then show ?case
    by (cases st) (auto simp add: EntryTypeTrip_def EntryTypeCome_def EntryTypeLeave_def
        split: if_splits intro: loop_index)
next
  case (Cons e pre)
  then show ?case
    by (cases st) (auto split: if_splits)
qed

lemma ComputeWorkTime_nonempty:
  assumes "entries \<noteq> []"
  shows "ComputeWorkTime now entries =
     (if Type (hd entries) \<noteq> EntryTypeCome then failure ErrWorkAllNight
      else if Year (Time (hd entries)) \<noteq> Year (Time (last entries))
           \<or> Month (Time (hd entries)) \<noteq> Month (Time (last entries))
           \<or> Day (Time (hd entries)) \<noteq> Day (Time (last entries))
      then failure ErrNotSameDay
      else
        let v = (if Type (last entries) \<noteq> EntryTypeLeave
                 then [\<lparr>Type = EntryTypeLeave, Time = now\<rparr>] else [])
        in case loop (entries @ v) 0 stateNone 0 zeroTime of
             Inl err \<Rightarrow> failure err
           | Inr workTime \<Rightarrow>
               (workTime, Time (hd entries),
                Sub (Time (last (entries @ v))) (Time (hd entries)) - workTime, None))"
proof -
  have "entries ! 0 = hd entries" "entries ! (length entries - 1) = last entries"
    using assms by (simp_all add: hd_conv_nth last_conv_nth)
  moreover have "(entries @ [x]) ! 0 = hd entries" for x
    using assms by (simp add: hd_conv_nth nth_append)
  moreover have "(entries @ [x]) ! (length (entries @ [x]) - 1) = x" for x
    by simp
  ultimately show ?thesis
    using assms unfolding ComputeWorkTime_def Let_def
    by (simp split: sum.splits)
qed

lemma loop_trip_come:
  "loop (\<lparr>Type = EntryTypeTrip, Time = trip\<rparr> # \<lparr>Type = EntryTypeCome, Time = resume\<rparr> # es)
      i stateWorking workTime lastCome
   = loop es (i + 2) stateWorking workTime lastCome"
  by (simp add: EntryTypeTrip_def EntryTypeCome_def EntryTypeLeave_def)

lemma loop_leave:
  "loop (\<lparr>Type = EntryTypeLeave, Time = leave\<rparr> # es) i stateWorking workTime lastCome
   = loop es (i + 1) stateNone (workTime + Sub leave lastCome) lastCome"
  by simp

lemma drop_trip_accepted:
  assumes "pre \<noteq> []" "post \<noteq> []"
    and "ComputeWorkTime now
           (pre @ \<lparr>Type = EntryTypeTrip, Time = trip\<rparr> # \<lparr>Type = EntryTypeCome, Time = resume\<rparr> # post)
         = (w, s, b, None)"
  shows "ComputeWorkTime now (pre @ post) = (w, s, b, None)"
proof -
  define v where "v = (if Type (last post) \<noteq> EntryTypeLeave
                 then [\<lparr>Type = EntryTypeLeave, Time = now\<rparr>] else [])"
  let ?tc = "[\<lparr>Type = EntryTypeTrip, Time = trip\<rparr>, \<lparr>Type = EntryTypeCome, Time = resume\<rparr>]"
  have drop: "loop (pre @ post @ v) 0 stateNone 0 zeroTime = Inr x"
    if "loop (pre @ ?tc @ post @ v) 0 stateNone 0 zeroTime = Inr x" for x
    using that loop_drop_trip [of pre trip resume "post @ v"] by simp
  have long: "ComputeWorkTime now (pre @ ?tc @ post) = (w, s, b, None)"
    using assms(3) by simp
  show ?thesis
    using long assms(1,2) drop
    by (auto simp add: ComputeWorkTime_nonempty failure_def Let_def v_def
        split: if_splits sum.splits)
qed

lemma trip_example:
  "ComputeWorkTime now
     [\<lparr>Type = EntryTypeCome, Time = clock 9 0\<rparr>, \<lparr>Type = EntryTypeTrip, Time = clock 12 0\<rparr>,
      \<lparr>Type = EntryTypeCome, Time = clock 13 0\<rparr>, \<lparr>Type = EntryTypeLeave, Time = clock 18 0\<rparr>]
   = (9 * Hour, clock 9 0, 0, None)"
  by (simp add: ComputeWorkTime_def Year_def Month_def Day_def clock_day)
    (simp add: clock_def Unix_def In_def EntryTypeTrip_def EntryTypeCome_def EntryTypeLeave_def
      Sub_def Hour_def)

text \<open>
  The same-day check follows the location of the entries: 21:00 to 23:00 in a zone two
  hours west of UTC is one day there (and two days in UTC), 23:30 to 00:30 in a zone one
  hour east of UTC is two days there (and one day in UTC).
\<close>

lemma west_zone_day:
  "localDay (In (FixedZone (- 7200)) (clock 23 0)) = 19737"
  "localDay (In (FixedZone (- 7200)) (clock 25 0)) = 19737"
  by (simp_all add: localDay_def clock_def In_def Unix_def FixedZone_def)

lemma east_zone_day:
  "localDay (In (FixedZone 3600) (clock 22 30)) = 19737"
  "localDay (In (FixedZone 3600) (clock 23 30)) = 19738"
  by (simp_all add: localDay_def clock_def In_def Unix_def FixedZone_def)

lemma civil_two_days: "civil 19737 = (2024, 1, 15)" "civil 19738 = (2024, 1, 16)"
  by code_simp+

lemma west_zone_example:
  "ComputeWorkTime now
     [\<lparr>Type = EntryTypeCome, Time = In (FixedZone (- 7200)) (clock 23 0)\<rparr>,
      \<lparr>Type = EntryTypeLeave, Time = In (FixedZone (- 7200)) (clock 25 0)\<rparr>]
   = (2 * Hour, In (FixedZone (- 7200)) (clock 23 0), 0, None)"
  by (simp add: ComputeWorkTime_def Year_def Month_def Day_def west_zone_day)
    (simp add: clock_def Unix_def In_def EntryTypeTrip_def EntryTypeCome_def EntryTypeLeave_def
      Sub_def Hour_def)

lemma east_zone_example:
  "ComputeWorkTime now
     [\<lparr>Type = EntryTypeCome, Time = In (FixedZone 3600) (clock 22 30)\<rparr>,
      \<lparr>Type = EntryTypeLeave, Time = In (FixedZone 3600) (clock 23 30)\<rparr>]
   = (0, Unix 0 0, 0, Some ErrNotSameDay)"
  by (simp add: ComputeWorkTime_def Year_def Month_def Day_def east_zone_day civil_two_days
      failure_def EntryTypeCome_def)

section \<open>Trips count as work\<close>

text \<open>
  C1. In the loop, a Trip entry followed by a Come entry leaves \<open>workTime\<close> and
  \<open>lastCome\<close> as they were, so that the next Leave entry adds the whole span since
  the last Come before the trip. For every accepted sequence in which a Trip is followed by
  a Come and later entries, the results of \<open>ComputeWorkTime\<close> are those of the
  sequence without the two trip entries: the trip interval is not subtracted. In particular
  Come 09:00, Trip 12:00, Come 13:00, Leave 18:00 gives a work time of 9 hours.
\<close>

theorem trip_interval_not_subtracted:
  "loop (\<lparr>Type = EntryTypeTrip, Time = trip\<rparr> # \<lparr>Type = EntryTypeCome, Time = resume\<rparr> # es)
      i stateWorking workTime lastCome
   = loop es (i + 2) stateWorking workTime lastCome
   \<and> loop (\<lparr>Type = EntryTypeTrip, Time = trip\<rparr> # \<lparr>Type = EntryTypeCome, Time = resume\<rparr>
            # \<lparr>Type = EntryTypeLeave, Time = leave\<rparr> # es) i stateWorking workTime lastCome
     = loop es (i + 3) stateNone (workTime + Sub leave lastCome) lastCome
   \<and> (pre \<noteq> [] \<and> post \<noteq> [] \<and>
      ComputeWorkTime now
        (pre @ \<lparr>Type = EntryTypeTrip, Time = trip\<rparr> # \<lparr>Type = EntryTypeCome, Time = resume\<rparr> # post)
      = (w, s, b, None)
      \<longrightarrow> ComputeWorkTime now (pre @ post) = (w, s, b, None))
   \<and> fst (ComputeWorkTime now
       [\<lparr>Type = EntryTypeCome, Time = clock 9 0\<rparr>, \<lparr>Type = EntryTypeTrip, Time = clock 12 0\<rparr>,
      \<lparr>Type = EntryTypeCome, Time = clock 13 0\<rparr>, \<lparr>Type = EntryTypeLeave, Time = clock 18 0\<rparr>])
     = 9 * Hour"
proof -
  have "loop (\<lparr>Type = EntryTypeTrip, Time = trip\<rparr> # \<lparr>Type = EntryTypeCome, Time = resume\<rparr>
            # \<lparr>Type = EntryTypeLeave, Time = leave\<rparr> # es) i stateWorking workTime lastCome
     = loop es (i + 3) stateNone (workTime + Sub leave lastCome) lastCome"
    by (simp only: loop_trip_come loop_leave) (simp add: numeral_3_eq_3)
  thus ?thesis
    using drop_trip_accepted [of pre post now trip resume w s b]
    by (simp only: loop_trip_come trip_example fst_conv) blast
qed

theorem trip_interval_not_subtracted_witness:
  "[\<lparr>Type = EntryTypeCome, Time = clock 9 0\<rparr>] \<noteq> [] \<and>
   [\<lparr>Type = EntryTypeLeave, Time = clock 18 0\<rparr>] \<noteq> [] \<and>
   ComputeWorkTime (clock 20 0)
     ([\<lparr>Type = EntryTypeCome, Time = clock 9 0\<rparr>]
      @ \<lparr>Type = EntryTypeTrip, Time = clock 12 0\<rparr> # \<lparr>Type = EntryTypeCome, Time = clock 13 0\<rparr>
      # [\<lparr>Type = EntryTypeLeave, Time = clock 18 0\<rparr>])
   = (9 * Hour, clock 9 0, 0, None) \<and>
   ComputeWorkTime (clock 20 0)
     ([\<lparr>Type = EntryTypeCome, Time = clock 9 0\<rparr>] @ [\<lparr>Type = EntryTypeLeave, Time = clock 18 0\<rparr>])
   = (9 * Hour, clock 9 0, 0, None)"
proof -
  have h: "ComputeWorkTime (clock 20 0)
     ([\<lparr>Type = EntryTypeCome, Time = clock 9 0\<rparr>]
      @ \<lparr>Type = EntryTypeTrip, Time = clock 12 0\<rparr> # \<lparr>Type = EntryTypeCome, Time = clock 13 0\<rparr>
      # [\<lparr>Type = EntryTypeLeave, Time = clock 18 0\<rparr>])
   = (9 * Hour, clock 9 0, 0, None)"
    using trip_example [of "clock 20 0"] by simp
  show ?thesis
    using h trip_interval_not_subtracted [of "clock 12 0" "clock 13 0" "[]" 0 0 "clock 9 0" "clock 18 0"
        "[\<lparr>Type = EntryTypeCome, Time = clock 9 0\<rparr>]"
        "[\<lparr>Type = EntryTypeLeave, Time = clock 18 0\<rparr>]" "clock 20 0" "9 * Hour" "clock 9 0" 0]
    by simp
qed

section \<open>Rejected sequences\<close>

text \<open>
  C9. \<open>ComputeWorkTime\<close> fails with \<open>ErrNoEntries\<close> on the empty sequence, and
  with the "did you work all night?" error whenever the first entry is a Leave or a Trip;
  in both cases the other three results are the zero values.
\<close>

theorem rejected_at_start:
  "ComputeWorkTime now [] = (0, Unix 0 0, 0, Some ErrNoEntries) \<and>
   (Type e = EntryTypeLeave \<or> Type e = EntryTypeTrip \<longrightarrow>
      ComputeWorkTime now (e # es) = (0, Unix 0 0, 0, Some ErrWorkAllNight))"
  by (auto simp add: ComputeWorkTime_def failure_def EntryTypeLeave_def EntryTypeTrip_def
      EntryTypeCome_def)

theorem rejected_at_start_witness:
  "(Type \<lparr>Type = EntryTypeTrip, Time = clock 9 0\<rparr> = EntryTypeLeave
      \<or> Type \<lparr>Type = EntryTypeTrip, Time = clock 9 0\<rparr> = EntryTypeTrip) \<and>
   ComputeWorkTime (clock 20 0)
     [\<lparr>Type = EntryTypeTrip, Time = clock 9 0\<rparr>, \<lparr>Type = EntryTypeLeave, Time = clock 18 0\<rparr>]
   = (0, Unix 0 0, 0, Some ErrWorkAllNight)"
  using rejected_at_start [of "clock 20 0" "\<lparr>Type = EntryTypeTrip, Time = clock 9 0\<rparr>"
      "[\<lparr>Type = EntryTypeLeave, Time = clock 18 0\<rparr>]"]
  by simp

section \<open>The wall clock\<close>

text \<open>
  C10. For every entry list whose last entry is a Leave, the results of
  \<open>ComputeWorkTime\<close> do not depend on the current instant: the instant is used only
  for the virtual leave entry, which is built only when the last entry is not a Leave. Two
  calls on the same list, at whatever instants, return the same four results.
\<close>

theorem last_leave_deterministic:
  assumes "entries \<noteq> []" "Type (last entries) = EntryTypeLeave"
  shows "ComputeWorkTime now entries = ComputeWorkTime now' entries"
  using assms by (simp add: ComputeWorkTime_def last_conv_nth)

theorem last_leave_deterministic_witness:
  "[\<lparr>Type = EntryTypeCome, Time = clock 9 10\<rparr>, \<lparr>Type = EntryTypeLeave, Time = clock 15 37\<rparr>] \<noteq> []
   \<and> Type (last [\<lparr>Type = EntryTypeCome, Time = clock 9 10\<rparr>,
                   \<lparr>Type = EntryTypeLeave, Time = clock 15 37\<rparr>]) = EntryTypeLeave
   \<and> ComputeWorkTime (clock 16 0)
         [\<lparr>Type = EntryTypeCome, Time = clock 9 10\<rparr>, \<lparr>Type = EntryTypeLeave, Time = clock 15 37\<rparr>]
     = ComputeWorkTime (clock 23 0)
         [\<lparr>Type = EntryTypeCome, Time = clock 9 10\<rparr>, \<lparr>Type = EntryTypeLeave, Time = clock 15 37\<rparr>]"
  using last_leave_deterministic
    [of "[\<lparr>Type = EntryTypeCome, Time = clock 9 10\<rparr>, \<lparr>Type = EntryTypeLeave, Time = clock 15 37\<rparr>]"
        "clock 16 0" "clock 23 0"]
  by simp

section \<open>Bounds on the work time\<close>








section \<open>Break time and presence time\<close>




section \<open>The cap\<close>

text \<open>
  C2. For every input pair \<open>(workTime, breakTime)\<close>, the accounted work time returned
  by \<open>ComputeAccountedWorkTime\<close> is at most 10 hours.
\<close>

theorem accounted_work_le_10h:
  "fst (ComputeAccountedWorkTime workTime breakTime) \<le>s 10 * Hour"
  by (auto simp add: ComputeAccountedWorkTime_def cap10_def word_sle_eq word_sless_alt
      split: prod.splits)

section \<open>Conservation\<close>

text \<open>
  C7, as the code has it. For every input pair for which the break time of the 10-hour
  cap, \<open>workTime + breakTime - 10h\<close>, does not exceed the largest \<open>Duration\<close>,
  \<open>ComputeAccountedWorkTime\<close> conserves the total: accounted work time plus accounted
  break time is work time plus break time, as integer numbers of nanoseconds. For every
  input pair whatever, the two sums are equal as \<open>Duration\<close> values, that is, modulo
  \<open>2^64\<close> nanoseconds.
\<close>

theorem accounted_sum_conserved:
  "fst (ComputeAccountedWorkTime workTime breakTime)
     + fst (snd (ComputeAccountedWorkTime workTime breakTime)) = workTime + breakTime \<and>
   (sint workTime + sint breakTime - sint (10 * Hour) < 2 ^ 63 \<longrightarrow>
      sint (fst (ComputeAccountedWorkTime workTime breakTime))
        + sint (fst (snd (ComputeAccountedWorkTime workTime breakTime)))
      = sint workTime + sint breakTime)"
proof (intro conjI impI)
  show "fst (ComputeAccountedWorkTime workTime breakTime)
     + fst (snd (ComputeAccountedWorkTime workTime breakTime)) = workTime + breakTime"
    by (simp add: ComputeAccountedWorkTime_def cap10_def tier6_def tier9_def split: prod.splits)
next
  define q where "q = cap10 (tier9 (tier6 (workTime, breakTime)))"
  assume "sint workTime + sint breakTime - sint (10 * Hour) < 2 ^ 63"
  hence "sint workTime + sint breakTime - 36000000000000 < 9223372036854775808"
    by (simp add: Hour_def)
  hence "sint2 q = cap10_int (tier9_int (tier6_int (sint workTime, sint breakTime)))"
    unfolding q_def by (rule accounted_sint2)
  hence "fst (sint2 q) + snd (sint2 q) = sint workTime + sint breakTime"
    by (simp add: cap10_int_sum tier9_int_sum tier6_int_sum)
  moreover have "ComputeAccountedWorkTime workTime breakTime = (fst q, snd q, None)"
    by (simp add: ComputeAccountedWorkTime_def q_def split_beta)
  ultimately show "sint (fst (ComputeAccountedWorkTime workTime breakTime))
        + sint (fst (snd (ComputeAccountedWorkTime workTime breakTime)))
      = sint workTime + sint breakTime"
    by (simp add: sint2_def)
qed

theorem accounted_sum_conserved_witness:
  "sint (11 * Hour) + sint (10 * Minute) - sint (10 * Hour) < 2 ^ 63 \<and>
   ComputeAccountedWorkTime (11 * Hour) (10 * Minute) = (10 * Hour, Hour + 10 * Minute, None) \<and>
   sint (10 * Hour) + sint (Hour + 10 * Minute) = sint (11 * Hour) + sint (10 * Minute)"
proof -
  have h: "sint (11 * Hour) + sint (10 * Minute) - sint (10 * Hour) < 2 ^ 63"
    by (simp add: Hour_def Minute_def)
  have v: "ComputeAccountedWorkTime (11 * Hour) (10 * Minute)
      = (10 * Hour, Hour + 10 * Minute, None)"
    by (simp add: ComputeAccountedWorkTime_def tier6_def tier9_def cap10_def Hour_def Minute_def
      word_sless_alt)
  show ?thesis
    using h v accounted_sum_conserved [of "11 * Hour" "10 * Minute"] by simp
qed
text \<open>
  With both inputs at the largest \<open>Duration\<close> the cap's break time wraps around: the
  result is \<open>(10h, -10h - 2ns)\<close>, a total of \<open>-2ns\<close>, where the inputs add up to
  \<open>2^64 - 2\<close> nanoseconds.
\<close>

theorem accounted_sum_conserved_counterexample:
  "ComputeAccountedWorkTime 9223372036854775807 9223372036854775807
     = (10 * Hour, - (10 * Hour) - 2, None) \<and>
   sint (10 * Hour) + sint (- (10 * Hour) - 2 :: Duration)
     \<noteq> sint (9223372036854775807 :: Duration) + sint (9223372036854775807 :: Duration)"
  by (simp add: ComputeAccountedWorkTime_def tier6_def tier9_def cap10_def Hour_def Minute_def
      word_sless_alt)

section \<open>Monotonicity\<close>

text \<open>
  C3. For a fixed break time, \<open>ComputeAccountedWorkTime\<close> is monotonic non-decreasing
  in the work time: whenever \<open>w1 \<le> w2\<close>, the accounted work time for \<open>w1\<close> is at
  most the accounted work time for \<open>w2\<close>.
\<close>

theorem accounted_work_mono:
  "w1 \<le>s w2 \<Longrightarrow>
   fst (ComputeAccountedWorkTime w1 breakTime) \<le>s fst (ComputeAccountedWorkTime w2 breakTime)"
  by (simp add: word_sle_eq accountedWork_sint accounted_int_mono)

theorem accounted_work_mono_witness:
  "(7 * Hour \<le>s 8 * Hour) \<and>
   fst (ComputeAccountedWorkTime (7 * Hour) 0) \<le>s fst (ComputeAccountedWorkTime (8 * Hour) 0)"
  using accounted_work_mono [of "7 * Hour" "8 * Hour" 0]
  by (simp add: Hour_def word_sle_eq)

section \<open>Idempotence\<close>

text \<open>
  C8, as the code has it. Applying \<open>ComputeAccountedWorkTime\<close> to its own output
  returns that output unchanged for every input pair for which the break time of the
  10-hour cap, \<open>workTime + breakTime - 10h\<close>, does not exceed the largest
  \<open>Duration\<close>.
\<close>

theorem accounted_idempotent:
  assumes "sint workTime + sint breakTime - sint (10 * Hour) < 2 ^ 63"
  shows "ComputeAccountedWorkTime (fst (ComputeAccountedWorkTime workTime breakTime))
           (fst (snd (ComputeAccountedWorkTime workTime breakTime)))
         = ComputeAccountedWorkTime workTime breakTime"
proof -
  define p where "p = tier9 (tier6 (workTime, breakTime))"
  define q where "q = cap10 p"
  have bound: "sint workTime + sint breakTime - 36000000000000 < 9223372036854775808"
    using assms by (simp add: Hour_def)
  have sum: "fst (sint2 p) + snd (sint2 p) = sint workTime + sint breakTime"
    by (simp add: p_def tier9_sint2 tier6_sint2 tier9_int_sum tier6_int_sum sint2_pair)
  have q: "sint2 q = cap10_int (tier9_int (tier6_int (sint workTime, sint breakTime)))"
    unfolding q_def using cap10_sint2 [of p] sum bound
    by (simp add: p_def tier9_sint2 tier6_sint2 sint2_pair)
  have "sint2 (tier6 q) = sint2 q"
    by (simp add: tier6_sint2 q tier6_int_fix)
  hence t6: "tier6 q = q" by (rule sint2_inj)
  have "sint2 (tier9 q) = sint2 q"
    by (simp add: tier9_sint2 q tier9_int_fix)
  hence t9: "tier9 q = q" by (rule sint2_inj)
  have c: "cap10 q = q" by (simp add: q_def cap10_fix)
  have "ComputeAccountedWorkTime workTime breakTime = (fst q, snd q, None)"
    by (simp add: ComputeAccountedWorkTime_def q_def p_def split_beta)
  moreover have "ComputeAccountedWorkTime (fst q) (snd q) = (fst q, snd q, None)"
    by (simp add: ComputeAccountedWorkTime_def t6 t9 c split_beta)
  ultimately show ?thesis by simp
qed

theorem accounted_idempotent_witness:
  "sint (11 * Hour) + sint (0 :: Duration) - sint (10 * Hour) < 2 ^ 63 \<and>
   ComputeAccountedWorkTime (fst (ComputeAccountedWorkTime (11 * Hour) 0))
     (fst (snd (ComputeAccountedWorkTime (11 * Hour) 0)))
   = ComputeAccountedWorkTime (11 * Hour) 0"
proof -
  have h: "sint (11 * Hour) + sint (0 :: Duration) - sint (10 * Hour) < 2 ^ 63"
    by (simp add: Hour_def)
  show ?thesis using h accounted_idempotent [OF h] by simp
qed

text \<open>
  With both inputs at the largest \<open>Duration\<close> the cap's break time wraps around to
  \<open>-10h - 2ns\<close>; the second application then sees a break below 30 minutes and moves
  the work time down to 6h.
\<close>

theorem accounted_idempotent_counterexample:
  "ComputeAccountedWorkTime
     (fst (ComputeAccountedWorkTime 9223372036854775807 9223372036854775807))
     (fst (snd (ComputeAccountedWorkTime 9223372036854775807 9223372036854775807)))
   \<noteq> ComputeAccountedWorkTime 9223372036854775807 9223372036854775807"
  by (simp add: ComputeAccountedWorkTime_def tier6_def tier9_def cap10_def Hour_def Minute_def
      word_sless_alt)

section \<open>The search loop\<close>

lemma accounted_no_error: "snd (snd (ComputeAccountedWorkTime w b)) = None"
  by (simp add: ComputeAccountedWorkTime_def split_beta)

lemma search_stop:
  "reached b t w \<Longrightarrow> search st b t w = Some (leaveAt st b w, None)"
  using accounted_no_error [of w b]
  by (subst search.simps) (simp add: reached_def leaveAt_def split_beta)

lemma search_step:
  "\<not> reached b t w \<Longrightarrow> search st b t w = search st b t (w + Minute)"
  using accounted_no_error [of w b]
  by (subst search.simps) (simp add: reached_def split_beta)

lemma search_first:
  "reached b t (w + of_nat k * Minute) \<Longrightarrow>
   (\<forall>j<k. \<not> reached b t (w + of_nat j * Minute)) \<Longrightarrow>
   search st b t w = Some (leaveAt st b (w + of_nat k * Minute), None)"
proof (induction k arbitrary: w)
  case 0
  then show ?case by (simp add: search_stop)
next
  case (Suc k)
  from Suc.prems(2) have "\<not> reached b t (w + of_nat 0 * Minute)" by blast
  hence first: "\<not> reached b t w" by simp
  have shift: "w + Minute + of_nat j * Minute = w + of_nat (Suc j) * Minute" for j
    by (simp add: algebra_simps)
  have "reached b t (w + Minute + of_nat k * Minute)"
    using Suc.prems(1) by (simp only: shift)
  moreover have "\<forall>j<k. \<not> reached b t (w + Minute + of_nat j * Minute)"
    using Suc.prems(2) by (simp only: shift) auto
  ultimately have "search st b t (w + Minute)
      = Some (leaveAt st b (w + Minute + of_nat k * Minute), None)"
    by (rule Suc.IH)
  hence "search st b t (w + Minute) = Some (leaveAt st b (w + of_nat (Suc k) * Minute), None)"
    by (simp only: shift)
  moreover have "search st b t w = search st b t (w + Minute)"
    using first by (rule search_step)
  ultimately show ?case by (rule ssubst [where P = "\<lambda>x. x = Some (leaveAt st b (w + of_nat (Suc k) * Minute), None)", rotated])
qed

lemma search_some_no_error:
  assumes "search st b t w = Some y"
  shows "snd y = None"
  by (rule search.raw_induct [OF _ assms])
    (auto simp add: split_beta accounted_no_error split: if_splits)

lemma candidate_sint:
  assumes "sint t \<le> 36000000000000" "k \<le> 45"
  shows "sint (t + of_nat k * Minute) = sint t + int k * 60000000000"
proof -
  have "of_nat k * Minute = (word_of_int (int k * 60000000000) :: 64 word)"
    by (simp add: Minute_def)
  hence "t + of_nat k * Minute = word_of_int (sint t + int k * 60000000000)"
    by simp
  hence "sint (t + of_nat k * Minute) = signed_take_bit 63 (sint t + int k * 60000000000)"
    by (simp only: signed_of_int) simp
  moreover have "- 9223372036854775808 \<le> sint t + int k * 60000000000"
    using sint_bounds64(1) [of t] by simp
  moreover have "sint t + int k * 60000000000 < 9223372036854775808"
    using assms by simp
  ultimately show ?thesis
    by (simp add: signed_take_bit_int_eq_self)
qed

lemma reached_sint:
  "reached b t w \<longleftrightarrow> sint t \<le> fst (cap10_int (tier9_int (tier6_int (sint w, sint b))))"
  by (simp add: reached_def word_sle_eq accountedWork_sint)

lemma reached_int_low:
  "t \<le> 21600000000000 \<Longrightarrow> t \<le> fst (cap10_int (tier9_int (tier6_int (t, b))))"
  by (simp add: cap10_int_def tier9_int_def tier6_int_def)

lemma reached_int_45:
  "t \<le> 36000000000000 \<Longrightarrow> 0 \<le> b \<Longrightarrow>
   t \<le> fst (cap10_int (tier9_int (tier6_int (t + 45 * 60000000000, b))))"
  by (simp add: cap10_int_def tier9_int_def tier6_int_def)

lemma reached_within_45:
  assumes "t \<le>s 10 * Hour" "0 \<le>s b"
  shows "\<exists>k\<le>45. reached b t (t + of_nat k * Minute)"
proof -
  have t: "sint t \<le> 36000000000000" and b: "0 \<le> sint b"
    using assms by (simp_all add: word_sle_eq Hour_def)
  have "sint (t + of_nat 45 * Minute) = sint t + int 45 * 60000000000"
    using t by (rule candidate_sint) simp
  hence "reached b t (t + of_nat 45 * Minute)"
    using reached_int_45 [OF t b] by (simp add: reached_sint)
  thus ?thesis by blast
qed

lemma first_reached:
  assumes "t \<le>s 10 * Hour" "0 \<le>s b"
  obtains k where "k \<le> 45" "reached b t (t + of_nat k * Minute)"
    "\<forall>j<k. \<not> reached b t (t + of_nat j * Minute)"
proof -
  define P where "P k = reached b t (t + of_nat k * Minute)" for k
  obtain k0 where k0: "k0 \<le> 45" "P k0"
    using reached_within_45 [OF assms] unfolding P_def by blast
  define k where "k = (LEAST n. P n)"
  have 1: "P k" unfolding k_def using k0(2) by (rule LeastI)
  have "k \<le> k0" unfolding k_def using k0(2) by (rule Least_le)
  hence 2: "k \<le> 45" using k0(1) by simp
  have 3: "\<forall>j<k. \<not> P j" unfolding k_def using not_less_Least by blast
  show ?thesis
    using that [of k] 1 2 3 unfolding P_def by blast
qed

section \<open>When GetLeaveTime fails and when it returns\<close>

text \<open>
  C5. \<open>GetLeaveTime\<close> fails with \<open>ErrMaxTimeReached\<close> if and only if the target
  work time is above 10 hours; for every target of at most 10 hours and every non-negative
  break time the search loop terminates and an instant is returned without error.
\<close>

theorem leave_time_fails_iff:
  "((\<exists>x. GetLeaveTime startTime breakTime targetWorkTime = Some (x, Some ErrMaxTimeReached))
      \<longleftrightarrow> 10 * Hour <s targetWorkTime) \<and>
   (targetWorkTime \<le>s 10 * Hour \<and> 0 \<le>s breakTime \<longrightarrow>
      (\<exists>leave. GetLeaveTime startTime breakTime targetWorkTime = Some (leave, None)))"
proof (intro conjI impI iffI)
  assume "\<exists>x. GetLeaveTime startTime breakTime targetWorkTime = Some (x, Some ErrMaxTimeReached)"
  then obtain x where x: "GetLeaveTime startTime breakTime targetWorkTime = Some (x, Some ErrMaxTimeReached)" ..
  show "10 * Hour <s targetWorkTime"
  proof (rule ccontr)
    assume "\<not> 10 * Hour <s targetWorkTime"
    hence "search startTime breakTime targetWorkTime targetWorkTime = Some (x, Some ErrMaxTimeReached)"
      using x by (simp add: GetLeaveTime_def)
    from search_some_no_error [OF this] show False by simp
  qed
next
  assume "10 * Hour <s targetWorkTime"
  thus "\<exists>x. GetLeaveTime startTime breakTime targetWorkTime = Some (x, Some ErrMaxTimeReached)"
    by (simp add: GetLeaveTime_def)
next
  assume a: "targetWorkTime \<le>s 10 * Hour \<and> 0 \<le>s breakTime"
  then obtain k where k: "reached breakTime targetWorkTime (targetWorkTime + of_nat k * Minute)"
    "\<forall>j<k. \<not> reached breakTime targetWorkTime (targetWorkTime + of_nat j * Minute)"
    using first_reached [of targetWorkTime breakTime] by blast
  have "\<not> 10 * Hour <s targetWorkTime"
    using a by (simp add: word_sle_eq word_sless_alt)
  thus "\<exists>leave. GetLeaveTime startTime breakTime targetWorkTime = Some (leave, None)"
    using search_first [OF k] by (simp add: GetLeaveTime_def)
qed

theorem leave_time_fails_iff_witness:
  "(8 * Hour \<le>s 10 * Hour \<and> (0 :: Duration) \<le>s 0) \<and>
   (\<exists>leave. GetLeaveTime (clock 8 0) 0 (8 * Hour) = Some (leave, None)) \<and>
   \<not> 10 * Hour <s 8 * Hour \<and>
   \<not> (\<exists>x. GetLeaveTime (clock 8 0) 0 (8 * Hour) = Some (x, Some ErrMaxTimeReached))"
proof -
  have h: "8 * Hour \<le>s 10 * Hour \<and> (0 :: Duration) \<le>s 0"
    by (simp add: Hour_def word_sle_eq)
  have n: "\<not> 10 * Hour <s 8 * Hour"
    by (simp add: Hour_def word_sless_alt)
  show ?thesis
    using h n leave_time_fails_iff [of "clock 8 0" 0 "8 * Hour"] by blast
qed

section \<open>What GetLeaveTime returns\<close>

text \<open>
  C6. For every target work time of at most 10 hours and every non-negative break time,
  \<open>GetLeaveTime\<close> returns the start time plus the accounted work time plus the
  accounted break time that \<open>ComputeAccountedWorkTime\<close> gives for the first work time
  in the sequence target, target + 1min, target + 2min, ... whose accounted work time is
  at least the target. That work time is reached without wrap-around.
\<close>

theorem leave_time_first_reached:
  assumes "targetWorkTime \<le>s 10 * Hour" "0 \<le>s breakTime"
  shows "\<exists>k. reached breakTime targetWorkTime (candidate targetWorkTime k) \<and>
     (\<forall>j<k. \<not> reached breakTime targetWorkTime (candidate targetWorkTime j)) \<and>
     sint (candidate targetWorkTime k) = sint targetWorkTime + int k * sint Minute \<and>
     GetLeaveTime startTime breakTime targetWorkTime
       = Some (leaveAt startTime breakTime (candidate targetWorkTime k), None)"
proof -
  obtain k where k: "k \<le> 45" "reached breakTime targetWorkTime (targetWorkTime + of_nat k * Minute)"
    "\<forall>j<k. \<not> reached breakTime targetWorkTime (targetWorkTime + of_nat j * Minute)"
    using first_reached [OF assms] by blast
  have n: "\<not> 10 * Hour <s targetWorkTime"
    using assms(1) by (simp add: word_sle_eq word_sless_alt)
  have t: "sint targetWorkTime \<le> 36000000000000"
    using assms(1) by (simp add: word_sle_eq Hour_def)
  have "sint (candidate targetWorkTime k) = sint targetWorkTime + int k * sint Minute"
    using candidate_sint [OF t k(1)] by (simp add: candidate_def Minute_def)
  moreover have "GetLeaveTime startTime breakTime targetWorkTime = Some (leaveAt startTime breakTime (candidate targetWorkTime k), None)"
    using search_first [OF k(2,3)] n by (simp add: GetLeaveTime_def candidate_def)
  ultimately show ?thesis
    using k(2,3) unfolding candidate_def by blast
qed

theorem leave_time_first_reached_witness:
  "8 * Hour \<le>s 10 * Hour \<and> (0 :: Duration) \<le>s 0 \<and>
   (\<exists>k. reached 0 (8 * Hour) (candidate (8 * Hour) k) \<and>
     (\<forall>j<k. \<not> reached 0 (8 * Hour) (candidate (8 * Hour) j)) \<and>
     sint (candidate (8 * Hour) k) = sint (8 * Hour) + int k * sint Minute \<and>
     GetLeaveTime (clock 8 0) 0 (8 * Hour)
       = Some (leaveAt (clock 8 0) 0 (candidate (8 * Hour) k), None))"
proof -
  have h: "8 * Hour \<le>s 10 * Hour" "(0 :: Duration) \<le>s 0"
    by (simp_all add: Hour_def word_sle_eq)
  show ?thesis
    using h leave_time_first_reached [OF h, of "clock 8 0"] by blast
qed

end
